theory Spec2Isabelle
  imports Complex_Main
begin

section \<open>Decimal amounts\<close>

text \<open>
  The billing code computes with Python's \<^verbatim>\<open>decimal.Decimal\<close>. Sums, products and the
  divisions by 2 and by 100 that occur are exact as long as the coefficient stays below
  the context precision (28 digits), which every \<^verbatim>\<open>DecimalField\<close> of the models does
  (at most 12 digits), so a Decimal is a rational number here. The only rounding is
  \<^verbatim>\<open>quantize(Decimal('0.01'), rounding)\<close>:
  \<^item> \<^verbatim>\<open>ROUND_HALF_UP\<close> rounds to the nearest hundredth, a tie away from zero;
  \<^item> with no rounding argument the context's rounding applies, which is
    \<^verbatim>\<open>ROUND_HALF_EVEN\<close> (the repository never changes the context): a tie goes to
    the even hundredth.
\<close>

type_synonym decimal = rat

definition quantize_half_up :: "decimal \<Rightarrow> decimal" where
  "quantize_half_up x =
     (if 0 \<le> x then of_int \<lfloor>x * 100 + 1 / 2\<rfloor> / 100
      else - (of_int \<lfloor>- x * 100 + 1 / 2\<rfloor> / 100))"

definition quantize_half_even :: "decimal \<Rightarrow> decimal" where
  "quantize_half_even x =
     (let s = x * 100; f = \<lfloor>s\<rfloor>; r = s - of_int f
      in of_int (if r < 1 / 2 then f
                 else if 1 / 2 < r then f + 1
                 else if even f then f else f + 1) / 100)"

definition two_places :: "decimal \<Rightarrow> bool" where
  \<comment> \<open>the amount has at most two decimal places\<close>
  "two_places x = (of_int \<lfloor>x * 100\<rfloor> = x * 100)"

section \<open>Tax engine: \<^verbatim>\<open>core/utils.py\<close>\<close>

text \<open>The dictionary returned by \<^verbatim>\<open>calculate_gst\<close>, one field per key.\<close>

record gst_calc =
  cgst_rate :: decimal
  cgst_amount :: decimal
  sgst_rate :: decimal
  sgst_amount :: decimal
  igst_rate :: decimal
  igst_amount :: decimal
  total_tax :: decimal
  total_amount :: decimal

definition calculate_gst :: "decimal \<Rightarrow> decimal \<Rightarrow> bool \<Rightarrow> gst_calc" where
  "calculate_gst base_amount gst_rate is_interstate =
     (let base = base_amount; rate = gst_rate
      in if is_interstate then
           (let igst_rate = rate;
                igst_amount = quantize_half_up (base * rate / 100)
            in \<lparr>cgst_rate = 0, cgst_amount = 0, sgst_rate = 0, sgst_amount = 0,
                igst_rate = igst_rate, igst_amount = igst_amount,
                total_tax = igst_amount,
                total_amount = quantize_half_up (base + igst_amount)\<rparr>)
         else
           (let half_rate = rate / 2;
                cgst_amount = quantize_half_up (base * half_rate / 100);
                sgst_amount = quantize_half_up (base * half_rate / 100);
                total_tax = cgst_amount + sgst_amount
            in \<lparr>cgst_rate = half_rate, cgst_amount = cgst_amount,
                sgst_rate = half_rate, sgst_amount = sgst_amount,
                igst_rate = 0, igst_amount = 0,
                total_tax = total_tax,
                total_amount = quantize_half_up (base + total_tax)\<rparr>))"

section \<open>Errors and framework values\<close>

text \<open>
  Every exception the modelled code raises is a constructor carrying its message.
  \<^verbatim>\<open>ValidationError\<close> is the one of the REST serializers, \<^verbatim>\<open>ProtectedError\<close> the one
  Django's \<^verbatim>\<open>Model.delete\<close> raises for a row that a foreign key with
  \<^verbatim>\<open>on_delete=PROTECT\<close> points to.
\<close>

datatype error =
    JobReadOnlyError string
  | InvalidStatusTransition string
  | InsufficientInventory string
  | BusinessRuleViolation string
  | ValueError string
  | ValidationError string
  | ProtectedError string

fun str_error :: "error \<Rightarrow> string" where
  "str_error (JobReadOnlyError m) = m"
| "str_error (InvalidStatusTransition m) = m"
| "str_error (InsufficientInventory m) = m"
| "str_error (BusinessRuleViolation m) = m"
| "str_error (ValueError m) = m"
| "str_error (ValidationError m) = m"
| "str_error (ProtectedError m) = m"

type_synonym uuid = nat
type_synonym user = string
type_synonym datetime = nat

text \<open>Python's \<^verbatim>\<open>str\<close> of an integer, used by the f-strings of the error messages.\<close>

function str_nat :: "nat \<Rightarrow> string" where
  "str_nat n =
     (if n < 10 then [''0123456789'' ! n]
      else str_nat (n div 10) @ [''0123456789'' ! (n mod 10)])"
  by pat_completeness auto
termination
  by (relation "measure (\<lambda>n. n)") auto

definition str_int :: "int \<Rightarrow> string" where
  "str_int i = (if i < 0 then ''-'' @ str_nat (nat (- i)) else str_nat (nat i))"

text \<open>The response of a view: the HTTP status and, for an error, its message.\<close>

datatype response = HTTP_200 | HTTP_400 string

section \<open>Invoice line items: \<^verbatim>\<open>InvoiceLineItem.save\<close>\<close>

record InvoiceLineItem =
  line_quantity :: int
  line_unit_price :: decimal
  line_amount :: decimal
  line_gst_rate :: decimal
  line_cgst_rate :: decimal
  line_cgst_amount :: decimal
  line_sgst_rate :: decimal
  line_sgst_amount :: decimal
  line_igst_rate :: decimal
  line_igst_amount :: decimal
  line_discount_percent :: decimal

text \<open>
  The amounts \<^verbatim>\<open>save\<close> computes before it writes the row; the first argument is
  \<^verbatim>\<open>self.invoice.is_interstate\<close>. Both \<^verbatim>\<open>quantize(two_places)\<close> calls are made
  without a rounding argument.
\<close>

definition line_discount :: "InvoiceLineItem \<Rightarrow> decimal" where
  \<comment> \<open>the local \<^verbatim>\<open>discount\<close> of \<^verbatim>\<open>save\<close>, from the amount before the deduction\<close>
  "line_discount it =
     quantize_half_even
       (quantize_half_even (of_int (line_quantity it) * line_unit_price it)
          * line_discount_percent it / 100)"

definition InvoiceLineItem_save :: "bool \<Rightarrow> InvoiceLineItem \<Rightarrow> InvoiceLineItem" where
  "InvoiceLineItem_save is_interstate it =
     (let amount0 = quantize_half_even (of_int (line_quantity it) * line_unit_price it);
          amount1 = (if 0 < line_discount_percent it
                     then amount0 - quantize_half_even (amount0 * line_discount_percent it / 100)
                     else amount0);
          gst = calculate_gst amount1 (line_gst_rate it) is_interstate
      in it\<lparr>line_amount := amount1,
            line_cgst_rate := cgst_rate gst, line_cgst_amount := cgst_amount gst,
            line_sgst_rate := sgst_rate gst, line_sgst_amount := sgst_amount gst,
            line_igst_rate := igst_rate gst, line_igst_amount := igst_amount gst\<rparr>)"

section \<open>Invoices and payments: \<^verbatim>\<open>billing/models.py\<close>, \<^verbatim>\<open>billing/views.py\<close>\<close>

datatype InvoiceStatus = DRAFT | PENDING | PARTIAL | PAID | INVOICE_CANCELLED

datatype PaymentMethod = CASH | UPI | CARD | NEFT | CHEQUE | WALLET | OTHER

record Invoice =
  invoice_number :: string
  is_interstate :: bool
  subtotal :: decimal
  cgst_total :: decimal
  sgst_total :: decimal
  igst_total :: decimal
  discount_amount :: decimal
  invoice_total_tax :: decimal
  invoice_total_amount :: decimal
  invoice_status :: InvoiceStatus
  paid_amount :: decimal
  is_finalized :: bool
  finalized_at :: "datetime option"
  finalized_by :: "user option"

record Payment =
  amount :: decimal
  payment_method :: PaymentMethod
  reference :: string
  payment_notes :: string
  received_by :: user

text \<open>
  An invoice with the rows that hang on it. Nothing raises between a field assignment and
  the \<^verbatim>\<open>save\<close> that follows it in the methods below (\<^verbatim>\<open>AuditLogService.log\<close> catches
  every exception, and the \<^verbatim>\<open>_dirty_fields\<close> attribute that the guard of
  \<^verbatim>\<open>Invoice.save\<close> asks for is assigned nowhere in the repository), so the object and
  its stored row agree after each call and one record stands for both.
\<close>

record billing =
  invoice :: Invoice
  line_items :: "InvoiceLineItem list"
  payments :: "Payment list"

definition balance_due :: "Invoice \<Rightarrow> decimal" where
  "balance_due invc = invoice_total_amount invc - paid_amount invc"

definition update_payment_status :: "Invoice \<Rightarrow> Invoice" where
  \<comment> \<open>\<^verbatim>\<open>Invoice._update_payment_status\<close>\<close>
  "update_payment_status invc =
     (if invoice_status invc = INVOICE_CANCELLED then invc
      else if balance_due invc \<le> 0 then invc\<lparr>invoice_status := PAID\<rparr>
      else if 0 < paid_amount invc then invc\<lparr>invoice_status := PARTIAL\<rparr>
      else if is_finalized invc then invc\<lparr>invoice_status := PENDING\<rparr>
      else invc\<lparr>invoice_status := DRAFT\<rparr>)"

fun add_line_totals :: "Invoice \<Rightarrow> InvoiceLineItem list \<Rightarrow> Invoice" where
  \<comment> \<open>the \<^verbatim>\<open>for item in self.line_items.all()\<close> loop of \<^verbatim>\<open>calculate_totals\<close>\<close>
  "add_line_totals invc [] = invc"
| "add_line_totals invc (item # items) =
     add_line_totals
       (invc\<lparr>subtotal := subtotal invc + line_amount item,
             cgst_total := cgst_total invc + line_cgst_amount item,
             sgst_total := sgst_total invc + line_sgst_amount item,
             igst_total := igst_total invc + line_igst_amount item\<rparr>) items"

definition calculate_totals :: "InvoiceLineItem list \<Rightarrow> Invoice \<Rightarrow> Invoice" where
  "calculate_totals items invc =
     (if is_finalized invc then invc
      else
        (let inv1 = add_line_totals
                      (invc\<lparr>subtotal := 0, cgst_total := 0, sgst_total := 0, igst_total := 0\<rparr>)
                      items;
             inv2 = inv1\<lparr>invoice_total_tax := cgst_total inv1 + sgst_total inv1 + igst_total inv1\<rparr>;
             inv3 = inv2\<lparr>invoice_total_amount :=
                      quantize_half_even
                        (subtotal inv2 + invoice_total_tax inv2 - discount_amount inv2)\<rparr>
         in update_payment_status inv3))"

definition finalize :: "user \<Rightarrow> datetime \<Rightarrow> billing \<Rightarrow> (error + unit) \<times> billing" where
  \<comment> \<open>\<^verbatim>\<open>Invoice.finalize\<close>; \<open>Inr ()\<close> is a normal return\<close>
  "finalize usr now s =
     (if is_finalized (invoice s) then (Inr (), s)
      else if line_items s = [] then
        (Inl (BusinessRuleViolation ''Cannot finalize invoice without line items.''), s)
      else
        (let invc = calculate_totals (line_items s) (invoice s)
         in (Inr (),
             s\<lparr>invoice := invc\<lparr>is_finalized := True, finalized_at := Some now,
                               finalized_by := Some usr, invoice_status := PENDING\<rparr>\<rparr>)))"

definition InvoiceViewSet_finalize :: "user \<Rightarrow> datetime \<Rightarrow> billing \<Rightarrow> response \<times> billing" where
  "InvoiceViewSet_finalize usr now s =
     (if is_finalized (invoice s) then (HTTP_400 ''Invoice is already finalized.'', s)
      else (case finalize usr now s of
              (Inl e, s') \<Rightarrow> (HTTP_400 (str_error e), s')
            | (Inr _, s') \<Rightarrow> (HTTP_200, s')))"

definition record_payment ::
  "decimal \<Rightarrow> PaymentMethod \<Rightarrow> user \<Rightarrow> string \<Rightarrow> string \<Rightarrow> billing \<Rightarrow> (error + Payment) \<times> billing" where
  \<comment> \<open>\<^verbatim>\<open>Invoice.record_payment\<close>\<close>
  "record_payment amt method usr ref nts s =
     (if amt \<le> 0 then (Inl (BusinessRuleViolation ''Payment amount must be positive.''), s)
      else if invoice_status (invoice s) = INVOICE_CANCELLED then
        (Inl (BusinessRuleViolation ''Cannot record payment on cancelled invoice.''), s)
      else
        (let payment = \<lparr>amount = amt, payment_method = method, reference = ref,
                        payment_notes = nts, received_by = usr\<rparr>;
             invc = (invoice s)\<lparr>paid_amount := paid_amount (invoice s) + amt\<rparr>
         in (Inr payment,
             s\<lparr>payments := payments s @ [payment], invoice := update_payment_status invc\<rparr>)))"

text \<open>
  \<^verbatim>\<open>RecordPaymentSerializer\<close>: the field
  \<^verbatim>\<open>DecimalField(max_digits=12, decimal_places=2, min_value=Decimal('0.01'))\<close> accepts a
  value of at most two decimal places and ten integer digits that is at least 0.01;
  \<^verbatim>\<open>validate_amount\<close> then compares it with the balance due of the invoice in the
  serializer's context. (The source's message also embeds the balance.)
\<close>

definition amount_field :: "decimal \<Rightarrow> error + decimal" where
  "amount_field v =
     (if \<not> two_places v \<or> 10 ^ 10 \<le> \<bar>v\<bar> then
        Inl (ValidationError ''Ensure that there are no more than 12 digits in total.'')
      else if v < 1 / 100 then
        Inl (ValidationError ''Ensure this value is greater than or equal to 0.01.'')
      else Inr v)"

definition validate_amount :: "Invoice \<Rightarrow> decimal \<Rightarrow> error + decimal" where
  "validate_amount invc v =
     (if balance_due invc < v then Inl (ValidationError ''Payment amount exceeds balance due'')
      else Inr v)"

definition InvoiceViewSet_record_payment ::
  "decimal \<Rightarrow> PaymentMethod \<Rightarrow> user \<Rightarrow> string \<Rightarrow> string \<Rightarrow> billing \<Rightarrow> response \<times> billing" where
  "InvoiceViewSet_record_payment amt method usr ref nts s =
     (if \<not> is_finalized (invoice s) then
        (HTTP_400 ''Finalize invoice before recording payments.'', s)
      else (case amount_field amt of
              Inl e \<Rightarrow> (HTTP_400 (str_error e), s)
            | Inr v \<Rightarrow>
               (case validate_amount (invoice s) v of
                  Inl e \<Rightarrow> (HTTP_400 (str_error e), s)
                | Inr v' \<Rightarrow>
                   (case record_payment v' method usr ref nts s of
                      (Inl e, s') \<Rightarrow> (HTTP_400 (str_error e), s')
                    | (Inr _, s') \<Rightarrow> (HTTP_200, s')))))"

section \<open>Append-only rows: \<^verbatim>\<open>JobStatusHistory\<close>, \<^verbatim>\<open>InventoryAdjustment\<close>\<close>

datatype JobStatus =
    RECEIVED | DIAGNOSED | ESTIMATE_SHARED | APPROVED | REJECTED
  | IN_PROGRESS | ON_HOLD | READY | DELIVERED | CANCELLED

datatype AdjustmentType = ADD | DEDUCT | MANUAL | CORRECTION | RETURN | DAMAGED

text \<open>
  Both models declare \<^verbatim>\<open>id = UUIDField(primary_key=True, default=uuid.uuid4)\<close>. The
  field \<open>pk\<close> of an instance is \<open>None\<close> only if the caller passes \<^verbatim>\<open>id=None\<close>: Django's
  \<^verbatim>\<open>Model.__init__\<close> evaluates the default of every field that is not given, so
  \<^verbatim>\<open>Model(**kwargs)\<close> and hence \<^verbatim>\<open>objects.create(**kwargs)\<close> hold a fresh UUID before
  the first \<^verbatim>\<open>save\<close>. A table is the list of its rows, oldest first.
\<close>

record JobStatusHistory =
  history_pk :: "uuid option"
  history_job :: string
  from_status :: JobStatus
  to_status :: JobStatus
  changed_by :: user
  history_notes :: string
  is_override :: bool

record InventoryAdjustment =
  adjustment_pk :: "uuid option"
  adjustment_type :: AdjustmentType
  adjustment_quantity :: int
  old_quantity :: int
  new_quantity :: int
  reason :: string
  adjusted_by :: user
  is_manual_adjustment :: bool

definition JobStatusHistory_save ::
  "uuid \<Rightarrow> JobStatusHistory \<Rightarrow> JobStatusHistory list \<Rightarrow> (error + unit) \<times> JobStatusHistory list" where
  \<comment> \<open>\<^verbatim>\<open>if self.pk: raise ValueError(...)\<close>, else the inherited insert, which
      draws the key (the first argument) from the field's default\<close>
  "JobStatusHistory_save fresh row table =
     (if history_pk row \<noteq> None then
        (Inl (ValueError ''JobStatusHistory records are immutable''), table)
      else (Inr (), table @ [row\<lparr>history_pk := Some fresh\<rparr>]))"

definition JobStatusHistory_delete ::
  "JobStatusHistory \<Rightarrow> JobStatusHistory list \<Rightarrow> (error + unit) \<times> JobStatusHistory list" where
  \<comment> \<open>the model overrides no \<^verbatim>\<open>delete\<close>: this is the inherited \<^verbatim>\<open>Model.delete\<close>.
      It refuses an instance without a key; no model of the repository has a foreign
      key to \<^verbatim>\<open>JobStatusHistory\<close>, so nothing else stops it\<close>
  "JobStatusHistory_delete row table =
     (if history_pk row = None then
        (Inl (ValueError ''object cannot be deleted because its id attribute is set to None''), table)
      else (Inr (), filter (\<lambda>r. history_pk r \<noteq> history_pk row) table))"

definition JobStatusHistory_create ::
  "uuid \<Rightarrow> JobStatusHistory \<Rightarrow> JobStatusHistory list \<Rightarrow> (error + unit) \<times> JobStatusHistory list" where
  \<comment> \<open>\<^verbatim>\<open>JobStatusHistory.objects.create(**kwargs)\<close>: the instance is built, its
      \<^verbatim>\<open>id\<close> set from the default, and \<^verbatim>\<open>save\<close> is called on it\<close>
  "JobStatusHistory_create fresh kwargs table =
     JobStatusHistory_save fresh (kwargs\<lparr>history_pk := Some fresh\<rparr>) table"

definition InventoryAdjustment_save ::
  "uuid \<Rightarrow> InventoryAdjustment \<Rightarrow> InventoryAdjustment list
     \<Rightarrow> (error + unit) \<times> InventoryAdjustment list" where
  "InventoryAdjustment_save fresh row table =
     (if adjustment_pk row \<noteq> None then
        (Inl (ValueError ''InventoryAdjustment records are immutable''), table)
      else (Inr (), table @ [row\<lparr>adjustment_pk := Some fresh\<rparr>]))"

text \<open>
  One model points to an adjustment row: \<^verbatim>\<open>JobPartUsage.adjustment\<close>, a nullable foreign
  key declared with \<^verbatim>\<open>on_delete=models.PROTECT\<close>. The record keeps the fields that
  \<^verbatim>\<open>deduct_stock\<close> fills; \<open>usage_adjustment\<close> is the key of the adjustment row, \<open>None\<close>
  for the null reference.
\<close>

record JobPartUsage =
  usage_job :: string
  usage_quantity :: int
  unit_price :: decimal
  total_price :: decimal
  usage_adjustment :: "uuid option"

definition InventoryAdjustment_delete ::
  "InventoryAdjustment \<Rightarrow> JobPartUsage list \<Rightarrow> InventoryAdjustment list
     \<Rightarrow> (error + unit) \<times> InventoryAdjustment list" where
  \<comment> \<open>the inherited \<^verbatim>\<open>Model.delete\<close> again, with the part-usage table as second
      argument: the collector raises \<^verbatim>\<open>ProtectedError\<close> when a part usage refers to
      the row, and deletes nothing\<close>
  "InventoryAdjustment_delete row usages table =
     (if adjustment_pk row = None then
        (Inl (ValueError ''object cannot be deleted because its id attribute is set to None''), table)
      else if adjustment_pk row \<in> set (map usage_adjustment usages) then
        (Inl (ProtectedError
               (''Cannot delete some instances of model 'InventoryAdjustment' because they ''
                @ ''are referenced through protected foreign keys: 'JobPartUsage.adjustment'.'')),
         table)
      else (Inr (), filter (\<lambda>r. adjustment_pk r \<noteq> adjustment_pk row) table))"

definition InventoryAdjustment_create ::
  "uuid \<Rightarrow> InventoryAdjustment \<Rightarrow> InventoryAdjustment list
     \<Rightarrow> (error + unit) \<times> InventoryAdjustment list" where
  "InventoryAdjustment_create fresh kwargs table =
     InventoryAdjustment_save fresh (kwargs\<lparr>adjustment_pk := Some fresh\<rparr>) table"

section \<open>Job state machine: \<^verbatim>\<open>jobs/models.py\<close>\<close>

fun ALLOWED_STATUS_TRANSITIONS :: "JobStatus \<Rightarrow> JobStatus list" where
  "ALLOWED_STATUS_TRANSITIONS RECEIVED = [DIAGNOSED, CANCELLED]"
| "ALLOWED_STATUS_TRANSITIONS DIAGNOSED = [ESTIMATE_SHARED, CANCELLED]"
| "ALLOWED_STATUS_TRANSITIONS ESTIMATE_SHARED = [APPROVED, REJECTED, CANCELLED]"
| "ALLOWED_STATUS_TRANSITIONS APPROVED = [IN_PROGRESS, CANCELLED]"
| "ALLOWED_STATUS_TRANSITIONS REJECTED = []"
| "ALLOWED_STATUS_TRANSITIONS IN_PROGRESS = [ON_HOLD, READY, CANCELLED]"
| "ALLOWED_STATUS_TRANSITIONS ON_HOLD = [IN_PROGRESS, CANCELLED]"
| "ALLOWED_STATUS_TRANSITIONS READY = [DELIVERED, IN_PROGRESS]"
| "ALLOWED_STATUS_TRANSITIONS DELIVERED = []"
| "ALLOWED_STATUS_TRANSITIONS CANCELLED = []"

fun label :: "JobStatus \<Rightarrow> string" where
  \<comment> \<open>the second component of each \<^verbatim>\<open>TextChoices\<close> member\<close>
  "label RECEIVED = ''Received''"
| "label DIAGNOSED = ''Diagnosed''"
| "label ESTIMATE_SHARED = ''Estimate Shared''"
| "label APPROVED = ''Approved''"
| "label REJECTED = ''Rejected''"
| "label IN_PROGRESS = ''In Progress''"
| "label ON_HOLD = ''On Hold''"
| "label READY = ''Ready for Pickup''"
| "label DELIVERED = ''Delivered''"
| "label CANCELLED = ''Cancelled''"

record JobCard =
  job_number :: string
  status :: JobStatus
  actual_completion_date :: "datetime option"
  delivery_date :: "datetime option"
  delivery_otp :: string

definition new_JobCard :: "string \<Rightarrow> JobCard" where
  \<comment> \<open>a job as intake creates it: every field at its declared default\<close>
  "new_JobCard number =
     \<lparr>job_number = number, status = RECEIVED, actual_completion_date = None,
      delivery_date = None, delivery_otp = []\<rparr>"

text \<open>
  The Python object \<open>job\<close> a method is called on, and the database: the job's stored row,
  its history table and the notifications handed to \<^verbatim>\<open>NotificationService\<close>. An
  exception that leaves a \<^verbatim>\<open>transaction.atomic()\<close> block undoes the block's database
  writes; the attributes already assigned on the Python object stay.
\<close>

record job_store =
  job :: JobCard
  job_row :: JobCard
  status_history :: "JobStatusHistory list"
  notifications :: "(JobStatus \<times> JobStatus) list"

definition get_status_display :: "JobCard \<Rightarrow> string" where
  "get_status_display j = label (status j)"

definition is_terminal_status :: "JobCard \<Rightarrow> bool" where
  "is_terminal_status j = (status j \<in> set [DELIVERED, CANCELLED, REJECTED])"

definition can_transition_to :: "JobCard \<Rightarrow> JobStatus \<Rightarrow> bool" where
  "can_transition_to j new_status =
     (let allowed = ALLOWED_STATUS_TRANSITIONS (status j) in new_status \<in> set allowed)"

definition transition_status ::
  "JobStatus \<Rightarrow> user \<Rightarrow> string \<Rightarrow> bool \<Rightarrow> datetime \<Rightarrow> uuid \<Rightarrow> job_store
     \<Rightarrow> (error + unit) \<times> job_store" where
  "transition_status new_status usr nts override now fresh s =
     (if is_terminal_status (job s) \<and> \<not> override then
        (Inl (JobReadOnlyError
               (''Job '' @ job_number (job s) @ '' is in '' @ get_status_display (job s)
                  @ '' status and cannot be modified.'')), s)
      else if \<not> override \<and> \<not> can_transition_to (job s) new_status then
        (Inl (InvalidStatusTransition
               (''Cannot transition from '' @ get_status_display (job s) @ '' to ''
                  @ label new_status)), s)
      else
        (let old_status = status (job s);
             j1 = (job s)\<lparr>status := new_status\<rparr>;
             j2 = (if new_status = READY then j1\<lparr>actual_completion_date := Some now\<rparr>
                   else if new_status = DELIVERED then j1\<lparr>delivery_date := Some now\<rparr>
                   else j1)
         in (case JobStatusHistory_create fresh
                    \<lparr>history_pk = None, history_job = job_number j2,
                     from_status = old_status, to_status = new_status, changed_by = usr,
                     history_notes = nts, is_override = override\<rparr>
                    (status_history s) of
               (Inl e, _) \<Rightarrow> (Inl e, s\<lparr>job := j2\<rparr>)
             | (Inr _, h) \<Rightarrow>
                 (Inr (),
                  s\<lparr>job := j2, job_row := j2, status_history := h,
                    notifications := notifications s @ [(old_status, new_status)]\<rparr>))))"

definition generate_delivery_otp :: "string \<Rightarrow> job_store \<Rightarrow> string \<times> job_store" where
  \<comment> \<open>the first argument is the value \<^verbatim>\<open>generate_otp()\<close> drew\<close>
  "generate_delivery_otp otp s =
     (otp, s\<lparr>job := (job s)\<lparr>delivery_otp := otp\<rparr>,
              job_row := (job_row s)\<lparr>delivery_otp := otp\<rparr>\<rparr>)"

definition verify_delivery_otp :: "JobCard \<Rightarrow> string \<Rightarrow> bool" where
  "verify_delivery_otp j otp = (delivery_otp j = otp)"

section \<open>Inventory ledger: \<^verbatim>\<open>inventory/models.py\<close>\<close>

record InventoryItem =
  name :: string
  quantity :: int
  low_stock_threshold :: int
  selling_price :: decimal

text \<open>
  The Python object \<open>item\<close>, its stored row, the adjustment and part-usage tables (the
  rows of \<^verbatim>\<open>JobPartUsage\<close>, declared with the append-only tables above) and the
  number of low-stock alerts sent. \<^verbatim>\<open>save(update_fields=['quantity', 'updated_at'])\<close>
  writes the quantity into the row.
\<close>

record inventory =
  item :: InventoryItem
  item_row :: InventoryItem
  adjustments :: "InventoryAdjustment list"
  part_usages :: "JobPartUsage list"
  low_stock_alerts :: nat

definition created_inventory :: "string \<Rightarrow> decimal \<Rightarrow> inventory" where
  \<comment> \<open>an item as the API creates it (\<^verbatim>\<open>quantity\<close> is read-only in the serializer):
      quantity and threshold at their defaults, no adjustment yet\<close>
  "created_inventory nm price =
     (let it = \<lparr>name = nm, quantity = 0, low_stock_threshold = 5, selling_price = price\<rparr>
      in \<lparr>item = it, item_row = it, adjustments = [], part_usages = [], low_stock_alerts = 0\<rparr>)"

definition is_low_stock :: "InventoryItem \<Rightarrow> bool" where
  "is_low_stock it = (quantity it \<le> low_stock_threshold it)"

definition add_stock ::
  "int \<Rightarrow> string \<Rightarrow> user \<Rightarrow> uuid \<Rightarrow> inventory \<Rightarrow> (error + unit) \<times> inventory" where
  "add_stock qty rsn usr fresh s =
     (if qty \<le> 0 then (Inl (ValueError ''Quantity must be positive''), s)
      else
        (let old = quantity (item s);
             it = (item s)\<lparr>quantity := old + qty\<rparr>
         in (case InventoryAdjustment_create fresh
                    \<lparr>adjustment_pk = None, adjustment_type = ADD, adjustment_quantity = qty,
                     old_quantity = old, new_quantity = quantity it, reason = rsn,
                     adjusted_by = usr, is_manual_adjustment = False\<rparr>
                    (adjustments s) of
               (Inl e, _) \<Rightarrow> (Inl e, s\<lparr>item := it\<rparr>)
             | (Inr _, tbl) \<Rightarrow>
                 (Inr (),
                  s\<lparr>item := it, item_row := (item_row s)\<lparr>quantity := quantity it\<rparr>,
                    adjustments := tbl\<rparr>))))"

definition deduct_stock ::
  "int \<Rightarrow> string \<Rightarrow> user \<Rightarrow> string option \<Rightarrow> uuid \<Rightarrow> inventory
     \<Rightarrow> (error + unit) \<times> inventory" where
  "deduct_stock qty rsn usr jb fresh s =
     (if qty \<le> 0 then (Inl (ValueError ''Quantity must be positive''), s)
      else if quantity (item s) < qty then
        (Inl (InsufficientInventory
               (''Insufficient stock for '' @ name (item s) @ ''. Requested: '' @ str_int qty
                  @ '', Available: '' @ str_int (quantity (item s)))), s)
      else
        (let old = quantity (item s);
             it = (item s)\<lparr>quantity := old - qty\<rparr>
         in (case InventoryAdjustment_create fresh
                    \<lparr>adjustment_pk = None, adjustment_type = DEDUCT, adjustment_quantity = qty,
                     old_quantity = old, new_quantity = quantity it, reason = rsn,
                     adjusted_by = usr, is_manual_adjustment = False\<rparr>
                    (adjustments s) of
               (Inl e, _) \<Rightarrow> (Inl e, s\<lparr>item := it\<rparr>)
             | (Inr _, tbl) \<Rightarrow>
                 (Inr (),
                  s\<lparr>item := it, item_row := (item_row s)\<lparr>quantity := quantity it\<rparr>,
                    adjustments := tbl,
                    part_usages :=
                      (case jb of
                         None \<Rightarrow> part_usages s
                       | Some j \<Rightarrow>
                           part_usages s @
                             [\<lparr>usage_job = j, usage_quantity = qty,
                               unit_price = selling_price it,
                               total_price = selling_price it * of_int qty,
                               usage_adjustment = Some fresh\<rparr>]),
                    low_stock_alerts :=
                      (if is_low_stock it then Suc (low_stock_alerts s)
                       else low_stock_alerts s)\<rparr>))))"

definition adjust_stock ::
  "int \<Rightarrow> string \<Rightarrow> user \<Rightarrow> uuid \<Rightarrow> inventory \<Rightarrow> (error + unit) \<times> inventory" where
  "adjust_stock new_qty rsn usr fresh s =
     (if new_qty < 0 then (Inl (ValueError ''Quantity cannot be negative''), s)
      else
        (let old = quantity (item s);
             quantity_diff = new_qty - old;
             it = (item s)\<lparr>quantity := new_qty\<rparr>
         in (case InventoryAdjustment_create fresh
                    \<lparr>adjustment_pk = None,
                     adjustment_type = (if 0 \<le> quantity_diff then MANUAL else CORRECTION),
                     adjustment_quantity = \<bar>quantity_diff\<bar>,
                     old_quantity = old, new_quantity = new_qty, reason = rsn,
                     adjusted_by = usr, is_manual_adjustment = True\<rparr>
                    (adjustments s) of
               (Inl e, _) \<Rightarrow> (Inl e, s\<lparr>item := it\<rparr>)
             | (Inr _, tbl) \<Rightarrow>
                 (Inr (),
                  s\<lparr>item := it, item_row := (item_row s)\<lparr>quantity := new_qty\<rparr>,
                    adjustments := tbl\<rparr>))))"

text \<open>
  A sequence of ledger calls on one item object. Each call is a request of its own: an
  exception ends that call only, and the next one finds the object as the failed call
  left it.
\<close>

datatype stock_op =
    Add_stock int string
  | Deduct_stock int string "string option"
  | Adjust_stock int string

fun apply_stock_op :: "user \<Rightarrow> uuid \<Rightarrow> stock_op \<Rightarrow> inventory \<Rightarrow> (error + unit) \<times> inventory" where
  "apply_stock_op usr fresh (Add_stock qty rsn) s = add_stock qty rsn usr fresh s"
| "apply_stock_op usr fresh (Deduct_stock qty rsn jb) s = deduct_stock qty rsn usr jb fresh s"
| "apply_stock_op usr fresh (Adjust_stock new_qty rsn) s = adjust_stock new_qty rsn usr fresh s"

fun run_stock_ops :: "user \<Rightarrow> (uuid \<times> stock_op) list \<Rightarrow> inventory \<Rightarrow> inventory" where
  "run_stock_ops usr [] s = s"
| "run_stock_ops usr ((fresh, opn) # ops) s =
     run_stock_ops usr ops (snd (apply_stock_op usr fresh opn s))"

definition signed_delta :: "InventoryAdjustment \<Rightarrow> int" where
  "signed_delta r = new_quantity r - old_quantity r"

definition sum_signed_deltas :: "InventoryAdjustment list \<Rightarrow> int" where
  "sum_signed_deltas tbl = sum_list (map signed_delta tbl)"

section \<open>Concrete inputs\<close>

text \<open>
  The scenarios of the specification as values: a line of one service at 1000.00 with
  18% GST on an intrastate invoice, that invoice as a draft and after finalization, a
  line with a 5% discount on 0.50, a job at intake, an item with one piece in stock, and
  one stored row of each append-only table. The last two are a part usage that refers to
  the stored adjustment row, and an item whose stored quantity of 5 is the delta of that
  row.
\<close>

definition service_line :: InvoiceLineItem where
  "service_line =
     \<lparr>line_quantity = 1, line_unit_price = 1000, line_amount = 1000, line_gst_rate = 18,
      line_cgst_rate = 9, line_cgst_amount = 90, line_sgst_rate = 9, line_sgst_amount = 90,
      line_igst_rate = 0, line_igst_amount = 0, line_discount_percent = 0\<rparr>"

definition discounted_line :: InvoiceLineItem where
  "discounted_line =
     \<lparr>line_quantity = 1, line_unit_price = 1 / 2, line_amount = 0, line_gst_rate = 18,
      line_cgst_rate = 0, line_cgst_amount = 0, line_sgst_rate = 0, line_sgst_amount = 0,
      line_igst_rate = 0, line_igst_amount = 0, line_discount_percent = 5\<rparr>"

definition draft_1180 :: billing where
  "draft_1180 =
     \<lparr>invoice =
        \<lparr>invoice_number = ''INV/2024-25/BR1/00001'', is_interstate = False, subtotal = 0,
         cgst_total = 0, sgst_total = 0, igst_total = 0, discount_amount = 0,
         invoice_total_tax = 0, invoice_total_amount = 0, invoice_status = DRAFT,
         paid_amount = 0, is_finalized = False, finalized_at = None, finalized_by = None\<rparr>,
      line_items = [service_line], payments = []\<rparr>"

definition pending_1180 :: billing where
  "pending_1180 =
     \<lparr>invoice =
        \<lparr>invoice_number = ''INV/2024-25/BR1/00001'', is_interstate = False, subtotal = 1000,
         cgst_total = 90, sgst_total = 90, igst_total = 0, discount_amount = 0,
         invoice_total_tax = 180, invoice_total_amount = 1180, invoice_status = PENDING,
         paid_amount = 0, is_finalized = True, finalized_at = Some 1,
         finalized_by = Some ''owner''\<rparr>,
      line_items = [service_line], payments = []\<rparr>"

definition received_job :: job_store where
  "received_job =
     \<lparr>job = new_JobCard ''JOB/2024-25/BR1/00001'',
      job_row = new_JobCard ''JOB/2024-25/BR1/00001'',
      status_history = [], notifications = []\<rparr>"

definition history_row :: JobStatusHistory where
  "history_row =
     \<lparr>history_pk = Some 7, history_job = ''JOB/2024-25/BR1/00001'', from_status = RECEIVED,
      to_status = DIAGNOSED, changed_by = ''technician'', history_notes = [],
      is_override = False\<rparr>"

definition adjustment_row :: InventoryAdjustment where
  "adjustment_row =
     \<lparr>adjustment_pk = Some 9, adjustment_type = ADD, adjustment_quantity = 5,
      old_quantity = 0, new_quantity = 5, reason = ''purchase'', adjusted_by = ''manager'',
      is_manual_adjustment = False\<rparr>"

definition one_in_stock :: inventory where
  "one_in_stock =
     \<lparr>item = \<lparr>name = ''RAM'', quantity = 1, low_stock_threshold = 5, selling_price = 2500\<rparr>,
      item_row = \<lparr>name = ''RAM'', quantity = 1, low_stock_threshold = 5, selling_price = 2500\<rparr>,
      adjustments = [], part_usages = [], low_stock_alerts = 0\<rparr>"

definition usage_row :: JobPartUsage where
  "usage_row =
     \<lparr>usage_job = ''JOB/2024-25/BR1/00001'', usage_quantity = 1, unit_price = 2500,
      total_price = 2500, usage_adjustment = Some 9\<rparr>"



section \<open>Rounding to two places\<close>

lemma floor_plus_half: "\<lfloor>(of_int n :: rat) + 1 / 2\<rfloor> = n"
  by (rule floor_unique) simp_all

lemma two_places_of_int_div: "two_places (of_int m / 100)"
  by (simp add: two_places_def)

lemma quantize_half_up_two_places:
  assumes "two_places x"
  shows "quantize_half_up x = x"
proof -
  define n where "n = \<lfloor>x * 100\<rfloor>"
  have n: "x * 100 = of_int n"
    using assms unfolding two_places_def n_def by (rule sym)
  have x: "x = of_int n / 100"
    using n by simp
  have neg: "- x * 100 = of_int (- n)"
    using n by simp
  show ?thesis
  proof (cases "0 \<le> x")
    case True
    then have "quantize_half_up x = of_int \<lfloor>x * 100 + 1 / 2\<rfloor> / 100"
      by (simp add: quantize_half_up_def)
    also have "\<dots> = of_int n / 100"
      by (simp only: n floor_plus_half)
    finally have q: "quantize_half_up x = of_int n / 100" .
    show ?thesis
      by (rule trans [OF q x [symmetric]])
  next
    case False
    then have "quantize_half_up x = - (of_int \<lfloor>- x * 100 + 1 / 2\<rfloor> / 100)"
      by (simp add: quantize_half_up_def)
    also have "\<dots> = - (of_int (- n) / 100)"
      by (simp only: neg floor_plus_half)
    also have "\<dots> = of_int n / 100"
      by simp
    finally have q: "quantize_half_up x = of_int n / 100" .
    show ?thesis
      by (rule trans [OF q x [symmetric]])
  qed
qed

lemma two_places_quantize_half_up: "two_places (quantize_half_up x)"
proof (cases "0 \<le> x")
  case True
  then have "quantize_half_up x = of_int \<lfloor>x * 100 + 1 / 2\<rfloor> / 100"
    by (simp add: quantize_half_up_def)
  then show ?thesis
    by (simp only: two_places_of_int_div)
next
  case False
  then have "quantize_half_up x = of_int (- \<lfloor>- x * 100 + 1 / 2\<rfloor>) / 100"
    by (simp add: quantize_half_up_def)
  then show ?thesis
    by (simp only: two_places_of_int_div)
qed

lemma two_places_add:
  assumes "two_places x" and "two_places y"
  shows "two_places (x + y)"
proof -
  define a where "a = \<lfloor>x * 100\<rfloor>"
  define b where "b = \<lfloor>y * 100\<rfloor>"
  have a: "x * 100 = of_int a"
    using assms(1) unfolding two_places_def a_def by (rule sym)
  have b: "y * 100 = of_int b"
    using assms(2) unfolding two_places_def b_def by (rule sym)
  have "(x + y) * 100 = of_int (a + b)"
    using a b by (simp add: algebra_simps)
  then show ?thesis
    by (simp only: two_places_def floor_of_int)
qed

lemma two_places_diff:
  assumes "two_places x" and "two_places y"
  shows "two_places (x - y)"
proof -
  define a where "a = \<lfloor>x * 100\<rfloor>"
  define b where "b = \<lfloor>y * 100\<rfloor>"
  have a: "x * 100 = of_int a"
    using assms(1) unfolding two_places_def a_def by (rule sym)
  have b: "y * 100 = of_int b"
    using assms(2) unfolding two_places_def b_def by (rule sym)
  have "(x - y) * 100 = of_int (a - b)"
    using a b by (simp add: algebra_simps)
  then show ?thesis
    by (simp only: two_places_def floor_of_int)
qed

lemma two_places_positive:
  assumes "two_places x" and "0 < x"
  shows "1 / 100 \<le> x"
proof -
  define n where "n = \<lfloor>x * 100\<rfloor>"
  have n: "x * 100 = of_int n"
    using assms(1) unfolding two_places_def n_def by (rule sym)
  have "0 < x * 100"
    using assms(2) by simp
  then have "(0::rat) < of_int n"
    by (simp only: n)
  then have "1 \<le> n"
    by simp
  then have "(1::rat) \<le> of_int n"
    by simp
  then have "1 \<le> x * 100"
    by (simp only: n)
  then show ?thesis
    by simp
qed

lemma quantize_half_up_nearest: "\<bar>quantize_half_up x - x\<bar> \<le> 1 / 200"
proof (cases "0 \<le> x")
  case True
  define m where "m = \<lfloor>x * 100 + 1 / 2\<rfloor>"
  have "of_int m \<le> x * 100 + 1 / 2" and "x * 100 + 1 / 2 < of_int m + 1"
    unfolding m_def by linarith+
  then have b: "\<bar>of_int m / 100 - x\<bar> \<le> 1 / 200"
    by linarith
  have q: "quantize_half_up x = of_int m / 100"
    using True by (simp add: quantize_half_up_def m_def)
  show ?thesis
    unfolding q by (rule b)
next
  case False
  define m where "m = \<lfloor>- x * 100 + 1 / 2\<rfloor>"
  have "of_int m \<le> - x * 100 + 1 / 2" and "- x * 100 + 1 / 2 < of_int m + 1"
    unfolding m_def by linarith+
  then have b: "\<bar>- (of_int m / 100) - x\<bar> \<le> 1 / 200"
    by linarith
  have q: "quantize_half_up x = - (of_int m / 100)"
    using False by (simp add: quantize_half_up_def m_def)
  show ?thesis
    unfolding q by (rule b)
qed

section \<open>Tax engine\<close>

lemma two_places_total_tax: "two_places (total_tax (calculate_gst base rate interstate))"
proof (cases interstate)
  case True
  then have "total_tax (calculate_gst base rate interstate) =
      quantize_half_up (base * rate / 100)"
    by (simp add: calculate_gst_def Let_def)
  then show ?thesis
    by (simp only: two_places_quantize_half_up)
next
  case False
  then have "total_tax (calculate_gst base rate interstate) =
      quantize_half_up (base * (rate / 2) / 100) + quantize_half_up (base * (rate / 2) / 100)"
    by (simp add: calculate_gst_def Let_def)
  then show ?thesis
    by (simp only: two_places_add two_places_quantize_half_up)
qed

text \<open>
  C2, as the code has it. An interstate supply is taxed as IGST alone, at the whole rate;
  an intrastate one as CGST and SGST, each at half the rate and each rounded half-up
  from the base on its own. The total tax is the sum of the three components. The total
  amount is the sum of base and total tax passed through one more half-up rounding to
  two places, so it equals base plus total tax whenever the base has at most two decimal
  places, and is that sum rounded otherwise: the two are equal for no other base.
\<close>

theorem calculate_gst_components:
  "calculate_gst base rate True =
     \<lparr>cgst_rate = 0, cgst_amount = 0, sgst_rate = 0, sgst_amount = 0,
      igst_rate = rate, igst_amount = quantize_half_up (base * rate / 100),
      total_tax = quantize_half_up (base * rate / 100),
      total_amount = quantize_half_up (base + quantize_half_up (base * rate / 100))\<rparr>
   \<and> calculate_gst base rate False =
     \<lparr>cgst_rate = rate / 2, cgst_amount = quantize_half_up (base * (rate / 2) / 100),
      sgst_rate = rate / 2, sgst_amount = quantize_half_up (base * (rate / 2) / 100),
      igst_rate = 0, igst_amount = 0,
      total_tax = quantize_half_up (base * (rate / 2) / 100)
                  + quantize_half_up (base * (rate / 2) / 100),
      total_amount = quantize_half_up
                       (base + (quantize_half_up (base * (rate / 2) / 100)
                                + quantize_half_up (base * (rate / 2) / 100)))\<rparr>
   \<and> total_tax (calculate_gst base rate interstate) =
       cgst_amount (calculate_gst base rate interstate)
       + sgst_amount (calculate_gst base rate interstate)
       + igst_amount (calculate_gst base rate interstate)
   \<and> total_amount (calculate_gst base rate interstate) =
       quantize_half_up (base + total_tax (calculate_gst base rate interstate))
   \<and> (two_places base \<longrightarrow>
        total_amount (calculate_gst base rate interstate) =
          base + total_tax (calculate_gst base rate interstate))
   \<and> (total_amount (calculate_gst base rate interstate) =
          base + total_tax (calculate_gst base rate interstate) \<longrightarrow>
        two_places base)"
proof -
  have c1: "calculate_gst base rate True =
     \<lparr>cgst_rate = 0, cgst_amount = 0, sgst_rate = 0, sgst_amount = 0,
      igst_rate = rate, igst_amount = quantize_half_up (base * rate / 100),
      total_tax = quantize_half_up (base * rate / 100),
      total_amount = quantize_half_up (base + quantize_half_up (base * rate / 100))\<rparr>"
    by (simp add: calculate_gst_def Let_def)
  have c2: "calculate_gst base rate False =
     \<lparr>cgst_rate = rate / 2, cgst_amount = quantize_half_up (base * (rate / 2) / 100),
      sgst_rate = rate / 2, sgst_amount = quantize_half_up (base * (rate / 2) / 100),
      igst_rate = 0, igst_amount = 0,
      total_tax = quantize_half_up (base * (rate / 2) / 100)
                  + quantize_half_up (base * (rate / 2) / 100),
      total_amount = quantize_half_up
                       (base + (quantize_half_up (base * (rate / 2) / 100)
                                + quantize_half_up (base * (rate / 2) / 100)))\<rparr>"
    by (simp add: calculate_gst_def Let_def)
  have c3: "total_tax (calculate_gst base rate interstate) =
       cgst_amount (calculate_gst base rate interstate)
       + sgst_amount (calculate_gst base rate interstate)
       + igst_amount (calculate_gst base rate interstate)"
    by (cases interstate) (simp_all add: calculate_gst_def Let_def)
  have c4: "total_amount (calculate_gst base rate interstate) =
      quantize_half_up (base + total_tax (calculate_gst base rate interstate))"
    by (cases interstate) (simp_all add: calculate_gst_def Let_def)
  have c5: "total_amount (calculate_gst base rate interstate) =
      base + total_tax (calculate_gst base rate interstate)" if "two_places base"
    unfolding c4
    by (rule quantize_half_up_two_places) (rule two_places_add [OF that two_places_total_tax])
  have c6: "two_places base"
    if eq: "total_amount (calculate_gst base rate interstate) =
      base + total_tax (calculate_gst base rate interstate)"
  proof -
    have t: "two_places (total_amount (calculate_gst base rate interstate))"
      unfolding c4 by (rule two_places_quantize_half_up)
    have d: "two_places (total_amount (calculate_gst base rate interstate)
        - total_tax (calculate_gst base rate interstate))"
      using t two_places_total_tax by (rule two_places_diff)
    have "total_amount (calculate_gst base rate interstate)
        - total_tax (calculate_gst base rate interstate) = base"
      unfolding eq by simp
    with d show ?thesis
      by (simp only:)
  qed
  show ?thesis
    using c1 c2 c3 c4 c5 c6 by blast
qed

theorem calculate_gst_components_witness:
  "two_places 1000
   \<and> calculate_gst 1000 18 False =
       \<lparr>cgst_rate = 9, cgst_amount = 90, sgst_rate = 9, sgst_amount = 90,
        igst_rate = 0, igst_amount = 0, total_tax = 180, total_amount = 1180\<rparr>
   \<and> calculate_gst 1000 18 True =
       \<lparr>cgst_rate = 0, cgst_amount = 0, sgst_rate = 0, sgst_amount = 0,
        igst_rate = 18, igst_amount = 180, total_tax = 180, total_amount = 1180\<rparr>
   \<and> total_amount (calculate_gst 1000 18 False) =
       1000 + total_tax (calculate_gst 1000 18 False)"
proof -
  have h: "two_places 1000"
    by (simp add: two_places_def)
  have q90: "quantize_half_up 90 = 90"
    by code_simp
  have q180: "quantize_half_up 180 = 180"
    by code_simp
  have q1180: "quantize_half_up 1180 = 1180"
    by code_simp
  show ?thesis
    using h calculate_gst_components [of 1000 18 False] by (simp add: q90 q180 q1180)
qed

text \<open>
  C2 as stated fails for a base with a third decimal place: on a base of 0.005 both
  halves of the tax round to 0.00, and the total amount is 0.01, not 0.005.
\<close>

theorem calculate_gst_total_counterexample:
  "total_amount (calculate_gst (5 / 1000) 18 False)
     \<noteq> 5 / 1000 + total_tax (calculate_gst (5 / 1000) 18 False)"
  by code_simp

section \<open>Line items\<close>

lemma InvoiceLineItem_save_amount:
  "line_amount (InvoiceLineItem_save interstate it) =
     (if 0 < line_discount_percent it
      then quantize_half_even (of_int (line_quantity it) * line_unit_price it) - line_discount it
      else quantize_half_even (of_int (line_quantity it) * line_unit_price it))"
  by (simp add: InvoiceLineItem_save_def line_discount_def Let_def)

lemma InvoiceLineItem_save_service_line: "InvoiceLineItem_save False service_line = service_line"
  by code_simp

text \<open>
  C7 at a line of one piece at 0.50 with a 5% discount. The exact discount is 0.025.
  \<^verbatim>\<open>save\<close> rounds it with the context's half-even rule to 0.02 and stores the amount
  0.48; rounded half-up, as \<^verbatim>\<open>calculate_gst\<close> rounds, the discount is 0.03.
\<close>

theorem line_discount_rounds_half_even:
  "line_discount discounted_line = 2 / 100
   \<and> quantize_half_up
        (of_int (line_quantity discounted_line) * line_unit_price discounted_line
           * line_discount_percent discounted_line / 100) = 3 / 100
   \<and> line_amount (InvoiceLineItem_save False discounted_line) = 48 / 100"
  by code_simp

section \<open>Invoices\<close>

lemma add_line_totals_eq:
  "add_line_totals i items =
     i\<lparr>subtotal := subtotal i + sum_list (map line_amount items),
       cgst_total := cgst_total i + sum_list (map line_cgst_amount items),
       sgst_total := sgst_total i + sum_list (map line_sgst_amount items),
       igst_total := igst_total i + sum_list (map line_igst_amount items)\<rparr>"
  by (induction items arbitrary: i) (simp_all add: add.assoc)

lemma update_payment_status_overwritten:
  "(update_payment_status i)\<lparr>invoice_status := st\<rparr> = i\<lparr>invoice_status := st\<rparr>"
  by (simp add: update_payment_status_def)

lemma update_payment_status_fields:
  "paid_amount (update_payment_status i) = paid_amount i"
  "invoice_total_amount (update_payment_status i) = invoice_total_amount i"
  "is_finalized (update_payment_status i) = is_finalized i"
  by (simp_all add: update_payment_status_def)

lemma calculate_totals_eq:
  assumes "\<not> is_finalized i"
  shows "calculate_totals items i =
     update_payment_status
       (i\<lparr>subtotal := sum_list (map line_amount items),
          cgst_total := sum_list (map line_cgst_amount items),
          sgst_total := sum_list (map line_sgst_amount items),
          igst_total := sum_list (map line_igst_amount items),
          invoice_total_tax :=
            sum_list (map line_cgst_amount items) + sum_list (map line_sgst_amount items)
            + sum_list (map line_igst_amount items),
          invoice_total_amount :=
            quantize_half_even
              (sum_list (map line_amount items)
               + (sum_list (map line_cgst_amount items) + sum_list (map line_sgst_amount items)
                  + sum_list (map line_igst_amount items))
               - discount_amount i)\<rparr>)"
  using assms by (simp add: calculate_totals_def Let_def add_line_totals_eq)

text \<open>
  C5, as the code has it. On an invoice that is already finalized \<^verbatim>\<open>Invoice.finalize\<close>
  returns at once: it raises nothing and changes nothing; the error for that case is the
  response of the view \<^verbatim>\<open>InvoiceViewSet.finalize\<close>, which tests the flag before it calls
  the method. With no line item the method raises \<^verbatim>\<open>BusinessRuleViolation\<close>, which the
  view turns into an error response, and nothing changes. Otherwise the totals are
  recomputed from the line items, the flag is set, time and user are stamped and the
  status is \<open>PENDING\<close>, whatever it was and whatever has been paid.
\<close>

theorem finalize_cases:
  "(is_finalized (invoice s) \<longrightarrow>
      finalize usr now s = (Inr (), s)
      \<and> InvoiceViewSet_finalize usr now s = (HTTP_400 ''Invoice is already finalized.'', s))
   \<and> (\<not> is_finalized (invoice s) \<and> line_items s = [] \<longrightarrow>
      finalize usr now s =
        (Inl (BusinessRuleViolation ''Cannot finalize invoice without line items.''), s)
      \<and> InvoiceViewSet_finalize usr now s =
          (HTTP_400 ''Cannot finalize invoice without line items.'', s))
   \<and> (\<not> is_finalized (invoice s) \<and> line_items s \<noteq> [] \<longrightarrow>
      finalize usr now s =
        (Inr (),
         s\<lparr>invoice := (invoice s)
            \<lparr>subtotal := sum_list (map line_amount (line_items s)),
             cgst_total := sum_list (map line_cgst_amount (line_items s)),
             sgst_total := sum_list (map line_sgst_amount (line_items s)),
             igst_total := sum_list (map line_igst_amount (line_items s)),
             invoice_total_tax :=
               sum_list (map line_cgst_amount (line_items s))
               + sum_list (map line_sgst_amount (line_items s))
               + sum_list (map line_igst_amount (line_items s)),
             invoice_total_amount :=
               quantize_half_even
                 (sum_list (map line_amount (line_items s))
                  + (sum_list (map line_cgst_amount (line_items s))
                     + sum_list (map line_sgst_amount (line_items s))
                     + sum_list (map line_igst_amount (line_items s)))
                  - discount_amount (invoice s)),
             invoice_status := PENDING, is_finalized := True,
             finalized_at := Some now, finalized_by := Some usr\<rparr>\<rparr>)
      \<and> InvoiceViewSet_finalize usr now s = (HTTP_200, snd (finalize usr now s)))"
proof -
  have a: "finalize usr now s = (Inr (), s)
      \<and> InvoiceViewSet_finalize usr now s = (HTTP_400 ''Invoice is already finalized.'', s)"
    if "is_finalized (invoice s)"
    using that by (simp add: finalize_def InvoiceViewSet_finalize_def)
  have b: "finalize usr now s =
        (Inl (BusinessRuleViolation ''Cannot finalize invoice without line items.''), s)
      \<and> InvoiceViewSet_finalize usr now s =
          (HTTP_400 ''Cannot finalize invoice without line items.'', s)"
    if "\<not> is_finalized (invoice s)" and "line_items s = []"
    using that by (simp add: finalize_def InvoiceViewSet_finalize_def)
  have c: "finalize usr now s =
        (Inr (),
         s\<lparr>invoice := (invoice s)
            \<lparr>subtotal := sum_list (map line_amount (line_items s)),
             cgst_total := sum_list (map line_cgst_amount (line_items s)),
             sgst_total := sum_list (map line_sgst_amount (line_items s)),
             igst_total := sum_list (map line_igst_amount (line_items s)),
             invoice_total_tax :=
               sum_list (map line_cgst_amount (line_items s))
               + sum_list (map line_sgst_amount (line_items s))
               + sum_list (map line_igst_amount (line_items s)),
             invoice_total_amount :=
               quantize_half_even
                 (sum_list (map line_amount (line_items s))
                  + (sum_list (map line_cgst_amount (line_items s))
                     + sum_list (map line_sgst_amount (line_items s))
                     + sum_list (map line_igst_amount (line_items s)))
                  - discount_amount (invoice s)),
             invoice_status := PENDING, is_finalized := True,
             finalized_at := Some now, finalized_by := Some usr\<rparr>\<rparr>)"
    if "\<not> is_finalized (invoice s)" and "line_items s \<noteq> []"
    using that
    by (simp add: finalize_def Let_def calculate_totals_eq update_payment_status_def)
  have d: "InvoiceViewSet_finalize usr now s = (HTTP_200, snd (finalize usr now s))"
    if "\<not> is_finalized (invoice s)" and "line_items s \<noteq> []"
    using that by (simp add: InvoiceViewSet_finalize_def finalize_def Let_def)
  show ?thesis
    using a b c d by blast
qed

theorem finalize_cases_witness:
  "\<not> is_finalized (invoice draft_1180) \<and> line_items draft_1180 \<noteq> []
   \<and> finalize ''owner'' 1 draft_1180 = (Inr (), pending_1180)
   \<and> InvoiceViewSet_finalize ''owner'' 1 draft_1180 = (HTTP_200, pending_1180)
   \<and> is_finalized (invoice pending_1180)
   \<and> InvoiceViewSet_finalize ''owner'' 2 pending_1180 =
       (HTTP_400 ''Invoice is already finalized.'', pending_1180)"
proof -
  have q: "quantize_half_even 1180 = 1180"
    by code_simp
  have h1: "\<not> is_finalized (invoice draft_1180) \<and> line_items draft_1180 \<noteq> []"
    by (simp add: draft_1180_def)
  have h2: "is_finalized (invoice pending_1180)"
    by (simp add: pending_1180_def)
  have "finalize ''owner'' 1 draft_1180 = (Inr (), pending_1180)"
    using h1 finalize_cases [of draft_1180 "''owner''" 1]
    by (simp add: draft_1180_def pending_1180_def service_line_def q)
  then show ?thesis
    using h1 h2 finalize_cases [of draft_1180 "''owner''" 1]
      finalize_cases [of pending_1180 "''owner''" 2]
    by simp
qed

text \<open>
  C5 as stated fails on the method: a second \<^verbatim>\<open>finalize\<close> of a finalized invoice
  returns normally and leaves the invoice as it is.
\<close>

theorem finalize_again_counterexample:
  "is_finalized (invoice pending_1180)
   \<and> finalize ''owner'' 2 pending_1180 = (Inr (), pending_1180)"
  by (simp add: finalize_def pending_1180_def)

text \<open>
  C4, as the code has it, for a positive amount. \<^verbatim>\<open>Invoice.record_payment\<close> itself
  refuses only a cancelled invoice; on any other invoice, finalized or not and whatever
  the balance, it appends one payment, adds the amount to \<open>paid_amount\<close> and derives the
  status again. The refusal of an invoice that is not finalized and of an amount above
  the balance due is made by the view \<^verbatim>\<open>InvoiceViewSet.record_payment\<close> and its
  serializer before the method is called: through the view each of the three conditions
  gives an error response and an unchanged invoice, and an amount that the serializer's
  field accepts and that does not exceed the balance is recorded as the method does it.
\<close>

theorem record_payment_checks:
  assumes "0 < amt"
  shows
  "(invoice_status (invoice s) = INVOICE_CANCELLED \<longrightarrow>
      record_payment amt method usr ref nts s =
        (Inl (BusinessRuleViolation ''Cannot record payment on cancelled invoice.''), s))
   \<and> (invoice_status (invoice s) \<noteq> INVOICE_CANCELLED \<longrightarrow>
      record_payment amt method usr ref nts s =
        (Inr \<lparr>amount = amt, payment_method = method, reference = ref,
              payment_notes = nts, received_by = usr\<rparr>,
         s\<lparr>payments := payments s @
              [\<lparr>amount = amt, payment_method = method, reference = ref,
                payment_notes = nts, received_by = usr\<rparr>],
           invoice := (invoice s)
             \<lparr>paid_amount := paid_amount (invoice s) + amt,
              invoice_status :=
                (if invoice_total_amount (invoice s) - (paid_amount (invoice s) + amt) \<le> 0
                 then PAID
                 else if 0 < paid_amount (invoice s) + amt then PARTIAL
                 else if is_finalized (invoice s) then PENDING else DRAFT)\<rparr>\<rparr>))
   \<and> (\<not> is_finalized (invoice s) \<or> balance_due (invoice s) < amt
        \<or> invoice_status (invoice s) = INVOICE_CANCELLED \<longrightarrow>
      (\<exists>msg. InvoiceViewSet_record_payment amt method usr ref nts s = (HTTP_400 msg, s)))
   \<and> (is_finalized (invoice s) \<and> amt \<le> balance_due (invoice s)
        \<and> invoice_status (invoice s) \<noteq> INVOICE_CANCELLED
        \<and> two_places amt \<and> amt < 10 ^ 10 \<longrightarrow>
      InvoiceViewSet_record_payment amt method usr ref nts s =
        (HTTP_200, snd (record_payment amt method usr ref nts s)))"
proof -
  have a: "record_payment amt method usr ref nts s =
        (Inl (BusinessRuleViolation ''Cannot record payment on cancelled invoice.''), s)"
    if "invoice_status (invoice s) = INVOICE_CANCELLED"
    using that assms by (simp add: record_payment_def)
  have b: "record_payment amt method usr ref nts s =
        (Inr \<lparr>amount = amt, payment_method = method, reference = ref,
              payment_notes = nts, received_by = usr\<rparr>,
         s\<lparr>payments := payments s @
              [\<lparr>amount = amt, payment_method = method, reference = ref,
                payment_notes = nts, received_by = usr\<rparr>],
           invoice := (invoice s)
             \<lparr>paid_amount := paid_amount (invoice s) + amt,
              invoice_status :=
                (if invoice_total_amount (invoice s) - (paid_amount (invoice s) + amt) \<le> 0
                 then PAID
                 else if 0 < paid_amount (invoice s) + amt then PARTIAL
                 else if is_finalized (invoice s) then PENDING else DRAFT)\<rparr>\<rparr>)"
    if "invoice_status (invoice s) \<noteq> INVOICE_CANCELLED"
    using that assms
    by (simp add: record_payment_def Let_def update_payment_status_def balance_due_def)
  have c: "\<exists>msg. InvoiceViewSet_record_payment amt method usr ref nts s = (HTTP_400 msg, s)"
    if "\<not> is_finalized (invoice s) \<or> balance_due (invoice s) < amt
        \<or> invoice_status (invoice s) = INVOICE_CANCELLED"
  proof (cases "is_finalized (invoice s)")
    case False
    then show ?thesis
      by (simp add: InvoiceViewSet_record_payment_def)
  next
    case True
    show ?thesis
    proof (cases "amount_field amt")
      case (Inl e)
      with True show ?thesis
        by (simp add: InvoiceViewSet_record_payment_def)
    next
      case (Inr v)
      then have v: "v = amt"
        by (simp add: amount_field_def split: if_splits)
      show ?thesis
      proof (cases "balance_due (invoice s) < amt")
        case True
        with \<open>is_finalized (invoice s)\<close> Inr v show ?thesis
          by (simp add: InvoiceViewSet_record_payment_def validate_amount_def)
      next
        case False
        with that \<open>is_finalized (invoice s)\<close>
        have "invoice_status (invoice s) = INVOICE_CANCELLED"
          by blast
        with \<open>is_finalized (invoice s)\<close> Inr v False a show ?thesis
          by (simp add: InvoiceViewSet_record_payment_def validate_amount_def)
      qed
    qed
  qed
  have d: "InvoiceViewSet_record_payment amt method usr ref nts s =
        (HTTP_200, snd (record_payment amt method usr ref nts s))"
    if "is_finalized (invoice s)" and "amt \<le> balance_due (invoice s)"
      and "invoice_status (invoice s) \<noteq> INVOICE_CANCELLED"
      and "two_places amt" and "amt < 10 ^ 10"
  proof -
    have "1 / 100 \<le> amt"
      using \<open>two_places amt\<close> assms by (rule two_places_positive)
    then have "amount_field amt = Inr amt"
      using that(4,5) assms by (simp add: amount_field_def)
    moreover have "validate_amount (invoice s) amt = Inr amt"
      using that(2) by (simp add: validate_amount_def)
    ultimately show ?thesis
      using that(1) b [OF that(3)] by (simp add: InvoiceViewSet_record_payment_def)
  qed
  show ?thesis
    using a b c d by blast
qed

theorem record_payment_checks_witness:
  "(0::decimal) < 1180
   \<and> is_finalized (invoice pending_1180) \<and> 1180 \<le> balance_due (invoice pending_1180)
   \<and> invoice_status (invoice pending_1180) \<noteq> INVOICE_CANCELLED
   \<and> two_places 1180 \<and> (1180::decimal) < 10 ^ 10
   \<and> InvoiceViewSet_record_payment 1180 UPI ''accountant'' ''UTR1'' [] pending_1180 =
       (HTTP_200, snd (record_payment 1180 UPI ''accountant'' ''UTR1'' [] pending_1180))
   \<and> invoice_status (invoice (snd (record_payment 1180 UPI ''accountant'' ''UTR1'' []
        pending_1180))) = PAID
   \<and> length (payments (snd (record_payment 1180 UPI ''accountant'' ''UTR1'' []
        pending_1180))) = 1
   \<and> balance_due (invoice pending_1180) < 1200
   \<and> (\<exists>msg. InvoiceViewSet_record_payment 1200 UPI ''accountant'' ''UTR1'' [] pending_1180 =
        (HTTP_400 msg, pending_1180))"
proof -
  have h: "(0::decimal) < 1180" and h': "(0::decimal) < 1200"
    by simp_all
  have t: "two_places 1180"
    by (simp add: two_places_def)
  have p: "is_finalized (invoice pending_1180)"
    "invoice_status (invoice pending_1180) \<noteq> INVOICE_CANCELLED"
    "balance_due (invoice pending_1180) = 1180"
    "paid_amount (invoice pending_1180) = 0"
    "invoice_total_amount (invoice pending_1180) = 1180"
    "payments pending_1180 = []"
    by (simp_all add: pending_1180_def balance_due_def)
  show ?thesis
    using record_payment_checks [OF h, of pending_1180 UPI "''accountant''" "''UTR1''" "[]"]
      record_payment_checks [OF h', of pending_1180 UPI "''accountant''" "''UTR1''" "[]"]
      t p
    by simp
qed

text \<open>
  C4 as stated fails on the method: called on the finalized invoice of 1180.00 with
  1200.00, more than the balance due, it records the payment and marks the invoice paid;
  called on the draft, which is not finalized, it records a payment of 100.00.
\<close>

theorem record_payment_unchecked_counterexample:
  "balance_due (invoice pending_1180) < 1200
   \<and> record_payment 1200 CASH ''accountant'' [] [] pending_1180 =
       (Inr \<lparr>amount = 1200, payment_method = CASH, reference = [], payment_notes = [],
             received_by = ''accountant''\<rparr>,
        pending_1180
          \<lparr>payments := [\<lparr>amount = 1200, payment_method = CASH, reference = [],
                          payment_notes = [], received_by = ''accountant''\<rparr>],
           invoice := (invoice pending_1180)\<lparr>paid_amount := 1200, invoice_status := PAID\<rparr>\<rparr>)
   \<and> \<not> is_finalized (invoice draft_1180)
   \<and> fst (record_payment 100 CASH ''accountant'' [] [] draft_1180) =
       Inr \<lparr>amount = 100, payment_method = CASH, reference = [], payment_notes = [],
            received_by = ''accountant''\<rparr>"
  by (simp add: record_payment_def Let_def update_payment_status_def balance_due_def
      pending_1180_def draft_1180_def)


section \<open>Append-only rows\<close>

lemma JobStatusHistory_create_raises:
  "JobStatusHistory_create fresh kwargs table =
     (Inl (ValueError ''JobStatusHistory records are immutable''), table)"
  by (simp add: JobStatusHistory_create_def JobStatusHistory_save_def)

lemma InventoryAdjustment_create_raises:
  "InventoryAdjustment_create fresh kwargs table =
     (Inl (ValueError ''InventoryAdjustment records are immutable''), table)"
  by (simp add: InventoryAdjustment_create_def InventoryAdjustment_save_def)

text \<open>
  A row that has its key, as every stored row has, cannot be saved again: \<^verbatim>\<open>save\<close>
  raises \<^verbatim>\<open>ValueError\<close> and the table stays as it was.
\<close>

lemma stored_row_save_raises:
  "history_pk row \<noteq> None \<Longrightarrow>
     JobStatusHistory_save fresh row table =
       (Inl (ValueError ''JobStatusHistory records are immutable''), table)"
  "adjustment_pk arow \<noteq> None \<Longrightarrow>
     InventoryAdjustment_save fresh arow atable =
       (Inl (ValueError ''InventoryAdjustment records are immutable''), atable)"
  by (simp_all add: JobStatusHistory_save_def InventoryAdjustment_save_def)

text \<open>
  Deletion is the inherited one. A stored history row is always removed; a stored
  adjustment row is removed unless a part usage refers to it, in which case the call
  raises \<^verbatim>\<open>ProtectedError\<close> and the table stays as it was.
\<close>

lemma JobStatusHistory_delete_removes:
  assumes "history_pk row \<noteq> None"
  shows "fst (JobStatusHistory_delete row table) = Inr ()
         \<and> row \<notin> set (snd (JobStatusHistory_delete row table))"
  using assms by (simp add: JobStatusHistory_delete_def)

lemma InventoryAdjustment_delete_removes:
  assumes "adjustment_pk arow \<noteq> None"
    and "adjustment_pk arow \<notin> set (map usage_adjustment usages)"
  shows "fst (InventoryAdjustment_delete arow usages atable) = Inr ()
         \<and> arow \<notin> set (snd (InventoryAdjustment_delete arow usages atable))"
  using assms by (simp add: InventoryAdjustment_delete_def)

lemma InventoryAdjustment_delete_protected:
  assumes "adjustment_pk arow \<noteq> None"
    and "adjustment_pk arow \<in> set (map usage_adjustment usages)"
  shows "\<exists>msg. InventoryAdjustment_delete arow usages atable = (Inl (ProtectedError msg), atable)"
  using assms by (simp add: InventoryAdjustment_delete_def)

lemma referenced_adjustment_row_protected:
  "fst (InventoryAdjustment_delete adjustment_row [usage_row] [adjustment_row]) =
     Inl (ProtectedError
           (''Cannot delete some instances of model 'InventoryAdjustment' because they ''
            @ ''are referenced through protected foreign keys: 'JobPartUsage.adjustment'.''))
   \<and> snd (InventoryAdjustment_delete adjustment_row [usage_row] [adjustment_row]) =
       [adjustment_row]"
  by (simp add: InventoryAdjustment_delete_def adjustment_row_def usage_row_def)

text \<open>
  C9 at one stored row of each table. Saving the row again raises \<^verbatim>\<open>ValueError\<close>, as
  the claim says. Deleting it does not: the stored history row, and the stored
  adjustment row that no part usage refers to, are deleted without an error and the
  table is empty afterwards.
\<close>

theorem delete_stored_row_succeeds:
  "JobStatusHistory_save 8 history_row [history_row] =
     (Inl (ValueError ''JobStatusHistory records are immutable''), [history_row])
   \<and> InventoryAdjustment_save 8 adjustment_row [adjustment_row] =
       (Inl (ValueError ''InventoryAdjustment records are immutable''), [adjustment_row])
   \<and> JobStatusHistory_delete history_row [history_row] = (Inr (), [])
   \<and> InventoryAdjustment_delete adjustment_row [] [adjustment_row] = (Inr (), [])"
  by (simp add: JobStatusHistory_save_def InventoryAdjustment_save_def
      JobStatusHistory_delete_def InventoryAdjustment_delete_def
      history_row_def adjustment_row_def)

section \<open>Job state machine\<close>

lemma terminal_iff_no_edge:
  "is_terminal_status j \<longleftrightarrow> ALLOWED_STATUS_TRANSITIONS (status j) = []"
  by (cases "status j") (simp_all add: is_terminal_status_def)

text \<open>
  The refusing half of the transition rule holds for every status and every target
  outside the table: the error is \<^verbatim>\<open>JobReadOnlyError\<close> from a terminal status and
  \<^verbatim>\<open>InvalidStatusTransition\<close> otherwise, and neither the object nor the database changes.
\<close>

lemma transition_status_refuses:
  assumes "new_status \<notin> set (ALLOWED_STATUS_TRANSITIONS (status (job s)))"
  shows "transition_status new_status usr nts False now fresh s =
     (Inl (if is_terminal_status (job s)
           then JobReadOnlyError
                  (''Job '' @ job_number (job s) @ '' is in '' @ label (status (job s))
                     @ '' status and cannot be modified.'')
           else InvalidStatusTransition
                  (''Cannot transition from '' @ label (status (job s)) @ '' to ''
                     @ label new_status)), s)"
  using assms
  by (simp add: transition_status_def can_transition_to_def get_status_display_def)

text \<open>
  The accepting half does not: for every edge of the table the history row is built by
  \<^verbatim>\<open>objects.create\<close>, whose \<^verbatim>\<open>save\<close> finds the key already set and raises. The call ends
  in \<^verbatim>\<open>ValueError\<close>, the database is as before, and the object carries the new status.
\<close>

lemma transition_status_edge_raises:
  assumes "new_status \<in> set (ALLOWED_STATUS_TRANSITIONS (status (job s)))"
  shows "fst (transition_status new_status usr nts False now fresh s) =
           Inl (ValueError ''JobStatusHistory records are immutable'')
         \<and> status_history (snd (transition_status new_status usr nts False now fresh s)) =
             status_history s
         \<and> job_row (snd (transition_status new_status usr nts False now fresh s)) = job_row s
         \<and> status (job (snd (transition_status new_status usr nts False now fresh s))) =
             new_status"
proof -
  have "\<not> is_terminal_status (job s)"
    using assms by (auto simp: terminal_iff_no_edge)
  then show ?thesis
    using assms
    by (simp add: transition_status_def can_transition_to_def Let_def
        JobStatusHistory_create_raises)
qed

text \<open>
  C1 at the first edge of the table. A job at intake is moved to \<open>DIAGNOSED\<close>, which the
  table allows from \<open>RECEIVED\<close>: the call raises \<^verbatim>\<open>ValueError\<close>, no history row exists
  afterwards, the stored job is unchanged, and the object's status is \<open>DIAGNOSED\<close>.
\<close>

theorem transition_status_allowed_edge_raises:
  "DIAGNOSED \<in> set (ALLOWED_STATUS_TRANSITIONS (status (job received_job)))
   \<and> transition_status DIAGNOSED ''technician'' ''diagnosis done'' False 10 42 received_job =
       (Inl (ValueError ''JobStatusHistory records are immutable''),
        received_job\<lparr>job := (job received_job)\<lparr>status := DIAGNOSED\<rparr>\<rparr>)
   \<and> status_history
       (snd (transition_status DIAGNOSED ''technician'' ''diagnosis done'' False 10 42
               received_job)) = []"
  by (simp add: transition_status_def can_transition_to_def is_terminal_status_def Let_def
      JobStatusHistory_create_raises received_job_def new_JobCard_def)

text \<open>
  C8 at the scenario of the specification. A job in \<open>RECEIVED\<close> asked to move to
  \<open>DELIVERED\<close> is refused with \<^verbatim>\<open>InvalidStatusTransition\<close>; its message names the current
  and the requested status and nothing else, although the table allows \<open>DIAGNOSED\<close> and
  \<open>CANCELLED\<close> from there.
\<close>

theorem invalid_transition_message:
  "ALLOWED_STATUS_TRANSITIONS (status (job received_job)) = [DIAGNOSED, CANCELLED]
   \<and> transition_status DELIVERED ''reception'' [] False 10 42 received_job =
       (Inl (InvalidStatusTransition ''Cannot transition from Received to Delivered''),
        received_job)"
  by (simp add: transition_status_def can_transition_to_def is_terminal_status_def
      get_status_display_def received_job_def new_JobCard_def)

text \<open>
  C10. \<^verbatim>\<open>verify_delivery_otp\<close> returns whether the candidate equals the stored code and
  assigns nothing; on a job whose code is still the empty default the empty candidate is
  accepted.
\<close>

theorem verify_delivery_otp_equality:
  "verify_delivery_otp j otp = (delivery_otp j = otp)
   \<and> (delivery_otp j = [] \<longrightarrow> verify_delivery_otp j [])"
  by (simp add: verify_delivery_otp_def)

theorem verify_delivery_otp_equality_witness:
  "delivery_otp (job received_job) = [] \<and> verify_delivery_otp (job received_job) []
   \<and> \<not> verify_delivery_otp (job received_job) ''123456''"
proof -
  have h: "delivery_otp (job received_job) = []"
    by (simp add: received_job_def new_JobCard_def)
  show ?thesis
    using h verify_delivery_otp_equality [of "job received_job" "[]"]
      verify_delivery_otp_equality [of "job received_job" "''123456''"]
    by simp
qed

lemma verify_after_generate:
  "verify_delivery_otp (job (snd (generate_delivery_otp otp s))) candidate
     \<longleftrightarrow> candidate = otp"
  by (auto simp: verify_delivery_otp_def generate_delivery_otp_def)

section \<open>Inventory ledger\<close>

lemma apply_stock_op_nonneg:
  assumes "0 \<le> quantity (item s)" and "0 \<le> quantity (item_row s)"
  shows "0 \<le> quantity (item (snd (apply_stock_op usr fresh opn s)))
         \<and> 0 \<le> quantity (item_row (snd (apply_stock_op usr fresh opn s)))"
proof (cases opn)
  case (Add_stock qty rsn)
  with assms show ?thesis
    by (simp add: add_stock_def Let_def InventoryAdjustment_create_raises)
next
  case (Deduct_stock qty rsn jb)
  with assms show ?thesis
    by (simp add: deduct_stock_def Let_def InventoryAdjustment_create_raises)
next
  case (Adjust_stock new_qty rsn)
  with assms show ?thesis
    by (simp add: adjust_stock_def Let_def InventoryAdjustment_create_raises)
qed

lemma run_stock_ops_nonneg:
  assumes "0 \<le> quantity (item s)" and "0 \<le> quantity (item_row s)"
  shows "0 \<le> quantity (item (run_stock_ops usr ops s))
         \<and> 0 \<le> quantity (item_row (run_stock_ops usr ops s))"
  using assms
proof (induction ops arbitrary: s)
  case Nil
  then show ?case by simp
next
  case (Cons p ops)
  obtain fresh opn where p: "p = (fresh, opn)"
    by (cases p)
  have "0 \<le> quantity (item (snd (apply_stock_op usr fresh opn s)))
        \<and> 0 \<le> quantity (item_row (snd (apply_stock_op usr fresh opn s)))"
    using Cons.prems by (rule apply_stock_op_nonneg)
  then show ?case
    using Cons.IH [of "snd (apply_stock_op usr fresh opn s)"] by (simp add: p)
qed

text \<open>
  C3. From a non-negative quantity, no sequence of \<^verbatim>\<open>add_stock\<close>, \<^verbatim>\<open>deduct_stock\<close> and
  \<^verbatim>\<open>adjust_stock\<close> calls, whichever of them raise, makes the quantity negative, on the
  object or in the stored row. A \<^verbatim>\<open>deduct_stock\<close> of a positive quantity above the
  stock raises \<^verbatim>\<open>InsufficientInventory\<close> with the requested and the available quantity
  in the message, and changes nothing: object, row, adjustments and part usages are as
  before.
\<close>

theorem stock_never_negative:
  "(0 \<le> quantity (item s) \<and> 0 \<le> quantity (item_row s) \<longrightarrow>
      0 \<le> quantity (item (run_stock_ops usr ops s))
      \<and> 0 \<le> quantity (item_row (run_stock_ops usr ops s)))
   \<and> (0 < qty \<and> quantity (item s) < qty \<longrightarrow>
      deduct_stock qty rsn usr jb fresh s =
        (Inl (InsufficientInventory
               (''Insufficient stock for '' @ name (item s) @ ''. Requested: '' @ str_int qty
                  @ '', Available: '' @ str_int (quantity (item s)))), s))"
  using run_stock_ops_nonneg [of s usr ops] by (simp add: deduct_stock_def)

theorem stock_never_negative_witness:
  "0 \<le> quantity (item one_in_stock) \<and> 0 \<le> quantity (item_row one_in_stock)
   \<and> (0::int) < 5 \<and> quantity (item one_in_stock) < 5
   \<and> deduct_stock 5 ''repair'' ''technician'' None 3 one_in_stock =
       (Inl (InsufficientInventory ''Insufficient stock for RAM. Requested: 5, Available: 1''),
        one_in_stock)
   \<and> 0 \<le> quantity (item (run_stock_ops ''technician''
             [(1, Deduct_stock 5 ''repair'' None), (2, Add_stock 4 ''purchase''),
              (3, Deduct_stock 5 ''repair'' None), (4, Adjust_stock 2 ''stock count done'')]
             one_in_stock))"
proof -
  have h: "0 \<le> quantity (item one_in_stock) \<and> 0 \<le> quantity (item_row one_in_stock)"
    "quantity (item one_in_stock) = 1" "name (item one_in_stock) = ''RAM''"
    by (simp_all add: one_in_stock_def)
  have s5: "str_int 5 = ''5''" and s1: "str_int 1 = ''1''"
    by (simp_all add: str_int_def)
  show ?thesis
    using h stock_never_negative [of one_in_stock "''technician''"
        "[(1, Deduct_stock 5 ''repair'' None), (2, Add_stock 4 ''purchase''),
          (3, Deduct_stock 5 ''repair'' None), (4, Adjust_stock 2 ''stock count done'')]"
        5 "''repair''" None 3]
    by (simp add: s5 s1)
qed





text \<open>
  What a call that raised leaves on the object: after \<^verbatim>\<open>add_stock(5)\<close> on a new item
  the object's quantity is 5 while the stored quantity is 0 and no adjustment row exists.
\<close>

lemma add_stock_object_ahead_of_row:
  "add_stock 5 ''purchase'' ''manager'' 1 (created_inventory ''RAM'' 2500) =
     (Inl (ValueError ''InventoryAdjustment records are immutable''),
      (created_inventory ''RAM'' 2500)
        \<lparr>item := (item (created_inventory ''RAM'' 2500))\<lparr>quantity := 5\<rparr>\<rparr>)
   \<and> quantity (item (snd (add_stock 5 ''purchase'' ''manager'' 1
        (created_inventory ''RAM'' 2500)))) = 5
   \<and> quantity (item_row (snd (add_stock 5 ''purchase'' ''manager'' 1
        (created_inventory ''RAM'' 2500)))) = 0
   \<and> sum_signed_deltas (adjustments (snd (add_stock 5 ''purchase'' ''manager'' 1
        (created_inventory ''RAM'' 2500)))) = 0"
  by (simp add: add_stock_def Let_def InventoryAdjustment_create_raises created_inventory_def
      sum_signed_deltas_def)


end
